theory Spec2Isabelle
  imports Complex_Main "HOL-Library.AList"
begin

section \<open>Python values, errors and dictionaries\<close>

text \<open>
  The module under study is \<^verbatim>\<open>src/unet/train.py\<close>: the metrics engine
  \<^verbatim>\<open>UNetMetrics\<close> and the training orchestrator \<^verbatim>\<open>UNetTrainer\<close>.
  Every exception a statement of the module can raise is a value of \<open>py_error\<close>; the
  string is the name, key, path or message the exception is about.
\<close>

datatype py_error =
    AttributeError string
  | NameError string
  | TypeError string
  | KeyError string
  | ValueError string
  | RuntimeError string
  | FileNotFoundError string
  | IndexError
  | ZeroDivisionError
  | StopIteration

text \<open>An entry of a plotting series: a step number, or a loss or metric value.\<close>

datatype pyval = PyInt int | PyFloat real

text \<open>
  A \<^verbatim>\<open>dict\<close> with string keys is an association list in insertion order;
  \<^verbatim>\<open>d[k]\<close> raises \<^verbatim>\<open>KeyError\<close> on a missing key and
  \<^verbatim>\<open>d[k] = v\<close> is \<open>AList.update\<close> (in place for a known key, at the end for a new one).
\<close>

definition getitem :: "(string \<times> 'v) list \<Rightarrow> string \<Rightarrow> py_error + 'v" where
  "getitem d k = (case map_of d k of None \<Rightarrow> Inl (KeyError k) | Some v \<Rightarrow> Inr v)"

definition startswith :: "string \<Rightarrow> string \<Rightarrow> bool" where
  "startswith s pre = (take (length pre) s = pre)"

definition endswith :: "string \<Rightarrow> string \<Rightarrow> bool" where
  "endswith s suf = (length suf \<le> length s \<and> drop (length s - length suf) s = suf)"

text \<open>
  A free name in a function body is looked up in the module's namespace when the statement
  runs, and raises \<^verbatim>\<open>NameError\<close> when the module binds no such name.  The functions
  below read four names that no statement of \<^verbatim>\<open>train.py\<close> binds at module level
  (\<^verbatim>\<open>alt_names\<close> is a local of \<^verbatim>\<open>plot_graphs\<close>; \<^verbatim>\<open>checkpoint_path\<close>,
  \<^verbatim>\<open>freeze\<close> and \<^verbatim>\<open>accuracy\<close> are assigned nowhere at that level).  The namespace is a
  parameter of the model, so that each function body is modelled whole, and \<open>train_py\<close> is
  the namespace the module really builds.
\<close>

record module_globals =
  global_alt_names :: "(string \<times> string) list option"
  global_checkpoint_path :: "string option"
  global_freeze :: "bool option"
  global_accuracy :: "real option"

definition train_py :: module_globals where
  "train_py = \<lparr> global_alt_names = None, global_checkpoint_path = None,
                global_freeze = None, global_accuracy = None \<rparr>"

section \<open>Tensors: one-hot encoding and arg-max\<close>

text \<open>
  A tensor is a nested list of its entries; a label tensor has shape \<open>(batch, H, W)\<close> and a
  score or indicator tensor \<open>(batch, C, H, W)\<close>.  The dtype casts of the source
  (\<^verbatim>\<open>.long()\<close>, \<^verbatim>\<open>.float()\<close>, \<^verbatim>\<open>.int()\<close>) keep the values \<open>0\<close>, \<open>1\<close> and the
  class indices as they are and are not modelled.  Nested lists do not record the size of a
  dimension that lies under an empty one, so \<open>functional_one_hot\<close> returns the size of
  the class dimension beside the entries.
\<close>

type_synonym labels = "int list list list"
type_synonym 'a tensor4 = "'a list list list list"

definition one_hot_row :: "nat \<Rightarrow> int \<Rightarrow> int list" where
  "one_hot_row C v = map (\<lambda>c. if int c = v then 1 else 0) [0..<C]"

text \<open>
  \<^verbatim>\<open>torch.nn.functional.one_hot(label, num_classes)\<close> on a CPU tensor: the class
  dimension comes last; an empty tensor needs a positive class count, negative entries are
  refused, \<open>-1\<close> infers the class count, and otherwise every entry must be below it.
\<close>

definition functional_one_hot :: "labels \<Rightarrow> int \<Rightarrow> py_error + nat \<times> int tensor4" where
  "functional_one_hot label n =
     (let entries = concat (concat label) in
      if entries = [] then
        (if n \<le> 0
         then Inl (RuntimeError ''Can not infer total number of classes from empty tensor.'')
         else Inr (nat n, map (map (map (one_hot_row (nat n)))) label))
      else if \<exists>v \<in> set entries. v < 0
        then Inl (RuntimeError ''Class values must be non-negative.'')
      else if n = - 1
        then (let C = nat (Max (set entries) + 1)
              in Inr (C, map (map (map (one_hot_row C))) label))
      else if \<exists>v \<in> set entries. n \<le> v
        then Inl (RuntimeError ''Class values must be smaller than num_classes.'')
      else Inr (nat n, map (map (map (one_hot_row (nat n)))) label))"

text \<open>\<^verbatim>\<open>t.permute(0,3,1,2)\<close>: channel-last \<open>(B, H, W, C)\<close> to channel-first \<open>(B, C, H, W)\<close>.\<close>

definition permute_0312 :: "nat \<Rightarrow> 'a tensor4 \<Rightarrow> 'a tensor4" where
  "permute_0312 C t = map (\<lambda>img. map (\<lambda>c. map (map (\<lambda>px. px ! c)) img) [0..<C]) t"

text \<open>\<^verbatim>\<open>UNetTrainer.one_hot_encoding\<close> (lines 389-401).\<close>

definition one_hot_encoding :: "int \<Rightarrow> labels \<Rightarrow> py_error + int tensor4" where
  "one_hot_encoding n label =
     (case functional_one_hot label n of
        Inl e \<Rightarrow> Inl e
      | Inr (C, one_hot) \<Rightarrow> Inr (permute_0312 C one_hot))"

text \<open>
  \<^verbatim>\<open>torch.argmax(t, dim=1)\<close>: for every position the index of the first maximal
  entry along the class dimension; a class dimension of size zero is an error.
\<close>

fun first_max :: "nat \<Rightarrow> 'a::linorder \<Rightarrow> nat \<Rightarrow> 'a list \<Rightarrow> nat" where
  "first_max best bv i [] = best"
| "first_max best bv i (x # xs) =
     (if bv < x then first_max i x (Suc i) xs else first_max best bv (Suc i) xs)"

definition argmax_list :: "'a::linorder list \<Rightarrow> nat" where
  "argmax_list xs = (case xs of [] \<Rightarrow> 0 | x # rest \<Rightarrow> first_max 0 x 1 rest)"

definition argmax_planes :: "'a::linorder list list list \<Rightarrow> py_error + int list list" where
  "argmax_planes planes =
     (case planes of
        [] \<Rightarrow> Inl IndexError
      | p0 # _ \<Rightarrow>
          Inr (map (\<lambda>h. map (\<lambda>w. int (argmax_list (map (\<lambda>pl. pl ! h ! w) planes)))
                             [0..<length (p0 ! h)])
                   [0..<length p0]))"

fun sequence :: "('e + 'a) list \<Rightarrow> 'e + 'a list" where
  "sequence [] = Inr []"
| "sequence (Inl e # _) = Inl e"
| "sequence (Inr x # rs) = (case sequence rs of Inl e \<Rightarrow> Inl e | Inr xs \<Rightarrow> Inr (x # xs))"

definition argmax_dim1 :: "'a::linorder tensor4 \<Rightarrow> py_error + labels" where
  "argmax_dim1 t = sequence (map argmax_planes t)"

section \<open>The metrics engine: class UNetMetrics\<close>

text \<open>
  The accumulators are objects of \<^verbatim>\<open>torchmetrics\<close>, a library outside the repository.
  Its three operations are parameters: the constructor, the call
  \<^verbatim>\<open>metric(preds, targets)\<close>, which updates the accumulator and returns the value of the
  batch or raises (for instance on a shape mismatch), and \<^verbatim>\<open>metric.compute()\<close>.
\<close>

datatype metric_class = Accuracy | Dice

record 'a torchmetrics =
  tm_new :: "metric_class \<Rightarrow> int \<Rightarrow> 'a"
  tm_forward :: "metric_class \<Rightarrow> 'a \<Rightarrow> labels \<Rightarrow> labels \<Rightarrow> (py_error + real) \<times> 'a"
  tm_compute :: "metric_class \<Rightarrow> 'a \<Rightarrow> real"

type_synonym 'a metric = "metric_class \<times> 'a"

text \<open>The attributes of an instance; \<open>train_flag\<close> is \<^verbatim>\<open>self._train\<close>.\<close>

record 'a UNetMetrics =
  num_classes :: int
  train_flag :: bool
  metrics :: "(string \<times> (string \<times> 'a metric) list) list"
  plots :: "(string \<times> (string \<times> pyval list) list) list"

text \<open>
  \<^verbatim>\<open>UNetMetrics.__init__\<close> (lines 42-70).  Both comprehensions build a fresh inner
  dictionary and fresh lists for each stage, so the two stages share no object.
\<close>

definition UNetMetrics_init :: "'a torchmetrics \<Rightarrow> int \<Rightarrow> 'a UNetMetrics" where
  "UNetMetrics_init lib n =
     \<lparr> num_classes = n,
       train_flag = True,
       metrics = map (\<lambda>stage. (stage, [(''acc'', (Accuracy, tm_new lib Accuracy n)),
                                         (''dice'', (Dice, tm_new lib Dice n))]))
                     [''train'', ''val''],
       plots = map (\<lambda>stage. (stage, [(''step'', []), (''loss'', []), (''acc'', []), (''dice'', [])]))
                   [''train'', ''val''] \<rparr>"

text \<open>\<^verbatim>\<open>UNetMetrics.train\<close> and \<^verbatim>\<open>UNetMetrics.eval\<close> (lines 72-82).\<close>

definition UNetMetrics_train :: "'a UNetMetrics \<Rightarrow> 'a UNetMetrics" where
  "UNetMetrics_train self = self\<lparr>train_flag := True\<rparr>"

definition UNetMetrics_eval :: "'a UNetMetrics \<Rightarrow> 'a UNetMetrics" where
  "UNetMetrics_eval self = self\<lparr>train_flag := False\<rparr>"

text \<open>
  \<^verbatim>\<open>self.metrics[stage][name](preds, targets)\<close>: two lookups, then the call, which
  changes the accumulator object in place.
\<close>

definition metric_call ::
  "'a torchmetrics \<Rightarrow> string \<Rightarrow> string \<Rightarrow> labels \<Rightarrow> labels \<Rightarrow> 'a UNetMetrics
     \<Rightarrow> (py_error + real) \<times> 'a UNetMetrics" where
  "metric_call lib stage name preds targets self =
     (case getitem (metrics self) stage of
        Inl e \<Rightarrow> (Inl e, self)
      | Inr d \<Rightarrow>
          (case getitem d name of
             Inl e \<Rightarrow> (Inl e, self)
           | Inr (cls, st) \<Rightarrow>
               (case tm_forward lib cls st preds targets of
                  (r, st') \<Rightarrow>
                    (r, self\<lparr>metrics :=
                           AList.update stage (AList.update name (cls, st') d) (metrics self)\<rparr>))))"

text \<open>\<^verbatim>\<open>self.plots[stage][name].append(v)\<close>.\<close>

definition plot_append ::
  "string \<Rightarrow> string \<Rightarrow> pyval \<Rightarrow> 'a UNetMetrics \<Rightarrow> (py_error + unit) \<times> 'a UNetMetrics" where
  "plot_append stage name v self =
     (case getitem (plots self) stage of
        Inl e \<Rightarrow> (Inl e, self)
      | Inr d \<Rightarrow>
          (case getitem d name of
             Inl e \<Rightarrow> (Inl e, self)
           | Inr series \<Rightarrow>
               (Inr (), self\<lparr>plots :=
                          AList.update stage (AList.update name (series @ [v]) d) (plots self)\<rparr>)))"

text \<open>
  \<^verbatim>\<open>UNetMetrics.update\<close> (lines 84-102): the two metric calls come first, the four
  appends after them.  The result is the outcome together with the instance as the call
  leaves it, also when it raises.
\<close>

definition update ::
  "'a torchmetrics \<Rightarrow> int \<Rightarrow> real \<Rightarrow> labels \<Rightarrow> labels \<Rightarrow> 'a UNetMetrics
     \<Rightarrow> (py_error + unit) \<times> 'a UNetMetrics" where
  "update lib step loss_value preds targets self =
     (let stage = (if train_flag self then ''train'' else ''val'') in
      case metric_call lib stage ''acc'' preds targets self of
        (Inl e, self1) \<Rightarrow> (Inl e, self1)
      | (Inr acc, self1) \<Rightarrow>
     (case metric_call lib stage ''dice'' preds targets self1 of
        (Inl e, self2) \<Rightarrow> (Inl e, self2)
      | (Inr dice, self2) \<Rightarrow>
     (case plot_append stage ''step'' (PyInt step) self2 of
        (Inl e, self3) \<Rightarrow> (Inl e, self3)
      | (Inr _, self3) \<Rightarrow>
     (case plot_append stage ''loss'' (PyFloat loss_value) self3 of
        (Inl e, self4) \<Rightarrow> (Inl e, self4)
      | (Inr _, self4) \<Rightarrow>
     (case plot_append stage ''acc'' (PyFloat acc) self4 of
        (Inl e, self5) \<Rightarrow> (Inl e, self5)
      | (Inr _, self5) \<Rightarrow> plot_append stage ''dice'' (PyFloat dice) self5)))))"

text \<open>
  \<^verbatim>\<open>UNetMetrics.compute\<close> (lines 104-114).  The inner loop assigns
  \<^verbatim>\<open>result[stage] = {metric_name: metric.compute()}\<close>: a new one-entry dictionary
  for every metric, each replacing the one before.
\<close>

definition compute :: "'a torchmetrics \<Rightarrow> 'a UNetMetrics \<Rightarrow> (string \<times> (string \<times> real) list) list" where
  "compute lib self =
     fold (\<lambda>(stage, m) result.
             fold (\<lambda>(metric_name, (cls, st)) result.
                     AList.update stage [(metric_name, tm_compute lib cls st)] result)
                  m result)
          (metrics self) []"

text \<open>
  \<^verbatim>\<open>UNetMetrics._to_dataframe\<close> (lines 116-144).  A row is
  \<open>(Batch, Stage, Metrics, Value)\<close>.  For every series whose key is not
  \<^verbatim>\<open>"batch"\<close> the body reads \<^verbatim>\<open>alt_names[stage_name]\<close>,
  \<^verbatim>\<open>alt_names[metric_name]\<close> and \<^verbatim>\<open>self.plots[stage_name]["batch"]\<close>, in
  this order, and adds the zipped rows (\<^verbatim>\<open>zip\<close> stops at the shortest column).
\<close>

type_synonym row = "pyval \<times> string \<times> string \<times> pyval"

fun to_dataframe_stage ::
  "module_globals \<Rightarrow> (string \<times> (string \<times> pyval list) list) list \<Rightarrow> string
     \<Rightarrow> (string \<times> pyval list) list \<Rightarrow> row list \<Rightarrow> py_error + row list" where
  "to_dataframe_stage g all_plots stage_name [] df_list = Inr df_list"
| "to_dataframe_stage g all_plots stage_name ((metric_name, vals) # rest) df_list =
     (if metric_name \<noteq> ''batch'' then
        (case global_alt_names g of
           None \<Rightarrow> Inl (NameError ''alt_names'')
         | Some alt_names \<Rightarrow>
        (case getitem alt_names stage_name of
           Inl e \<Rightarrow> Inl e
         | Inr stage_label \<Rightarrow>
        (case getitem alt_names metric_name of
           Inl e \<Rightarrow> Inl e
         | Inr metric_label \<Rightarrow>
        (case getitem all_plots stage_name of
           Inl e \<Rightarrow> Inl e
         | Inr stage \<Rightarrow>
        (case getitem stage ''batch'' of
           Inl e \<Rightarrow> Inl e
         | Inr batch \<Rightarrow>
             to_dataframe_stage g all_plots stage_name rest
               (df_list @ zip batch
                            (zip (replicate (length vals) stage_label)
                                 (zip (replicate (length vals) metric_label) vals))))))))
      else to_dataframe_stage g all_plots stage_name rest df_list)"

fun to_dataframe_stages ::
  "module_globals \<Rightarrow> (string \<times> (string \<times> pyval list) list) list
     \<Rightarrow> (string \<times> (string \<times> pyval list) list) list \<Rightarrow> row list \<Rightarrow> py_error + row list" where
  "to_dataframe_stages g all_plots [] df_list = Inr df_list"
| "to_dataframe_stages g all_plots ((stage_name, stage) # rest) df_list =
     (case to_dataframe_stage g all_plots stage_name stage df_list of
        Inl e \<Rightarrow> Inl e
      | Inr df_list' \<Rightarrow> to_dataframe_stages g all_plots rest df_list')"

definition to_dataframe :: "module_globals \<Rightarrow> 'a UNetMetrics \<Rightarrow> py_error + row list" where
  "to_dataframe g self = to_dataframe_stages g (plots self) (plots self) []"

text \<open>
  A caller's use of an engine: a sequence of method calls.  A caller may catch what
  \<^verbatim>\<open>update\<close> raises and go on, so the sequence continues from the instance as the
  raising call left it.
\<close>

datatype engine_call = CallTrain | CallEval | CallUpdate int real labels labels

fun engine_step :: "'a torchmetrics \<Rightarrow> engine_call \<Rightarrow> 'a UNetMetrics \<Rightarrow> 'a UNetMetrics" where
  "engine_step lib CallTrain self = UNetMetrics_train self"
| "engine_step lib CallEval self = UNetMetrics_eval self"
| "engine_step lib (CallUpdate step loss_value preds targets) self =
     snd (update lib step loss_value preds targets self)"

definition engine_run :: "'a torchmetrics \<Rightarrow> engine_call list \<Rightarrow> 'a UNetMetrics \<Rightarrow> 'a UNetMetrics" where
  "engine_run lib calls self = fold (engine_step lib) calls self"

text \<open>The series of a stage, and how many \<^verbatim>\<open>update\<close> calls of a sequence returned in each stage.\<close>

definition series :: "'a UNetMetrics \<Rightarrow> string \<Rightarrow> string \<Rightarrow> pyval list" where
  "series self stage name =
     (case getitem (plots self) stage of
        Inl _ \<Rightarrow> []
      | Inr d \<Rightarrow> (case getitem d name of Inl _ \<Rightarrow> [] | Inr xs \<Rightarrow> xs))"

fun updates_returned ::
  "'a torchmetrics \<Rightarrow> string \<Rightarrow> engine_call list \<Rightarrow> 'a UNetMetrics \<Rightarrow> nat" where
  "updates_returned lib stage [] self = 0"
| "updates_returned lib stage (c # cs) self =
     (case c of
        CallUpdate step loss_value preds targets \<Rightarrow>
          (if (if train_flag self then ''train'' else ''val'') = stage
              \<and> fst (update lib step loss_value preds targets self) = Inr ()
           then 1 else 0)
      | _ \<Rightarrow> 0)
     + updates_returned lib stage cs (engine_step lib c self)"

text \<open>
  How many \<^verbatim>\<open>update\<close> calls of a sequence were made in each stage, returning or not.
\<close>

fun updates_made ::
  "'a torchmetrics \<Rightarrow> string \<Rightarrow> engine_call list \<Rightarrow> 'a UNetMetrics \<Rightarrow> nat" where
  "updates_made lib stage [] self = 0"
| "updates_made lib stage (c # cs) self =
     (case c of
        CallUpdate step loss_value preds targets \<Rightarrow>
          (if (if train_flag self then ''train'' else ''val'') = stage then 1 else 0)
      | _ \<Rightarrow> 0)
     + updates_made lib stage cs (engine_step lib c self)"

section \<open>The orchestrator: class UNetTrainer\<close>

text \<open>
  The network (\<^verbatim>\<open>unet.model.UNET\<close>), the optimizer and the loss are outside the
  file.  Of the network the orchestrator touches its named parameters with their
  \<^verbatim>\<open>requires_grad\<close> flags, its state dictionary and its mode flag
  \<^verbatim>\<open>training\<close>; of the optimizer the parameters it was bound to and its state.
\<close>

record 'w unet =
  parameters :: "(string \<times> bool) list"
  state_dict :: 'w
  training :: bool

record 'w adam =
  param_names :: "string list"
  adam_state :: 'w

text \<open>
  The operations of \<^verbatim>\<open>torch\<close> and of the network are parameters:
  \<open>forward\<close> is \<^verbatim>\<open>torch.softmax(self.model(data), dim=1)\<close>, \<open>cross_entropy\<close> is
  \<^verbatim>\<open>self.loss_fn\<close>, \<open>pixel_accuracy\<close> is
  \<^verbatim>\<open>(predictions == targets).sum() / torch.numel(targets)\<close>; each may raise.
\<close>

record 'w torch =
  UNET :: "int \<Rightarrow> int \<Rightarrow> 'w unet"
  adam_init :: 'w
  torch_load :: "string \<Rightarrow> py_error + (string \<times> 'w) list"
  load_state_dict :: "'w \<Rightarrow> 'w \<Rightarrow> py_error + 'w"
  forward :: "'w unet \<Rightarrow> real tensor4 \<Rightarrow> py_error + real tensor4"
  cross_entropy :: "real tensor4 \<Rightarrow> int tensor4 \<Rightarrow> py_error + real"
  pixel_accuracy :: "labels \<Rightarrow> labels \<Rightarrow> py_error + real"

text \<open>What an orchestrator does to the world outside its attributes, in order.\<close>

datatype effect =
    OptimizerBound "string list"
  | FileRead string
  | ModelStateLoaded
  | OptimizerStateLoaded
  | FreezePolicyApplied bool
  | CheckpointSaved string

text \<open>The arguments of \<^verbatim>\<open>UNetTrainer.__init__\<close> (lines 232-243).\<close>

record trainer_config =
  cfg_image_size :: int
  cfg_num_classes :: int
  cfg_batch_size :: int
  cfg_num_epochs :: int
  cfg_learning_rate :: real
  cfg_checkpoint_dir :: string
  cfg_freeze :: bool
  cfg_num_workers :: int
  cfg_pin_memory :: bool

text \<open>
  The attributes of an instance.  An attribute is \<open>None\<close> while no statement has assigned
  it; reading it then raises \<^verbatim>\<open>AttributeError\<close>.  \<^verbatim>\<open>__init__\<close> assigns
  \<^verbatim>\<open>checkpoint_dir\<close> and never \<^verbatim>\<open>checkpoint_path\<close>, the attribute
  \<^verbatim>\<open>load_checkpoint\<close> reads.
\<close>

record ('w, 'a) UNetTrainer =
  image_size :: int
  trainer_num_classes :: int
  batch_size :: int
  num_epochs :: int
  learning_rate :: real
  checkpoint_dir :: string
  freeze :: bool
  num_workers :: int
  pin_memory :: bool
  checkpoint_path :: "string option"
  model :: "'w unet"
  optimizer :: "'w adam option"
  trainer_metrics :: "'a UNetMetrics option"
  effects :: "effect list"

text \<open>
  Lines 302-312 of \<^verbatim>\<open>load_checkpoint\<close>: with a false flag every parameter is
  marked trainable, otherwise exactly those whose name starts with \<^verbatim>\<open>final_conv\<close>.
\<close>

definition freeze_policy :: "bool \<Rightarrow> (string \<times> bool) list \<Rightarrow> (string \<times> bool) list" where
  "freeze_policy fr ps =
     (if \<not> fr then map (\<lambda>(name, _). (name, True)) ps
      else map (\<lambda>(name, _). (name, if startswith name ''final_conv'' then True else False)) ps)"

text \<open>
  \<^verbatim>\<open>UNetTrainer.load_checkpoint\<close> (lines 285-312).  Line 290 reads the attribute
  \<^verbatim>\<open>self.checkpoint_path\<close> and checks the extension; line 298 reads the free name
  \<^verbatim>\<open>checkpoint_path\<close> and line 303 the free name \<^verbatim>\<open>freeze\<close>.
\<close>

definition load_checkpoint ::
  "'w torch \<Rightarrow> module_globals \<Rightarrow> ('w, 'a) UNetTrainer
     \<Rightarrow> (py_error + unit) \<times> ('w, 'a) UNetTrainer" where
  "load_checkpoint T g self =
     (case checkpoint_path self of
        None \<Rightarrow> (Inl (AttributeError ''checkpoint_path''), self)
      | Some path \<Rightarrow>
     (if \<not> endswith path ''.pth.tar'' then (Inl (ValueError path), self)
      else
     (case global_checkpoint_path g of
        None \<Rightarrow> (Inl (NameError ''checkpoint_path''), self)
      | Some file \<Rightarrow>
     (let self1 = self\<lparr>effects := effects self @ [FileRead file]\<rparr> in
      case torch_load T file of
        Inl e \<Rightarrow> (Inl e, self1)
      | Inr checkpoint \<Rightarrow>
     (case getitem checkpoint ''state_dict'' of
        Inl e \<Rightarrow> (Inl e, self1)
      | Inr model_state \<Rightarrow>
     (case load_state_dict T (state_dict (model self1)) model_state of
        Inl e \<Rightarrow> (Inl e, self1)
      | Inr w \<Rightarrow>
     (let self2 = self1\<lparr>model := (model self1)\<lparr>state_dict := w\<rparr>,
                        effects := effects self1 @ [ModelStateLoaded]\<rparr> in
      case optimizer self2 of
        None \<Rightarrow> (Inl (AttributeError ''optimizer''), self2)
      | Some opt \<Rightarrow>
     (case getitem checkpoint ''optimizer'' of
        Inl e \<Rightarrow> (Inl e, self2)
      | Inr optimizer_state \<Rightarrow>
     (case load_state_dict T (adam_state opt) optimizer_state of
        Inl e \<Rightarrow> (Inl e, self2)
      | Inr w' \<Rightarrow>
     (let self3 = self2\<lparr>optimizer := Some (opt\<lparr>adam_state := w'\<rparr>),
                        effects := effects self2 @ [OptimizerStateLoaded]\<rparr> in
      case global_freeze g of
        None \<Rightarrow> (Inl (NameError ''freeze''), self3)
      | Some fr \<Rightarrow>
          (Inr (),
           self3\<lparr>model := (model self3)\<lparr>parameters := freeze_policy fr (parameters (model self3))\<rparr>,
                 effects := effects self3 @ [FreezePolicyApplied fr]\<rparr>)))))))))))"

text \<open>\<^verbatim>\<open>UNetTrainer.save_checkpoint\<close> (lines 314-316).\<close>

definition save_checkpoint :: "string \<Rightarrow> ('w, 'a) UNetTrainer \<Rightarrow> ('w, 'a) UNetTrainer" where
  "save_checkpoint filename self = self\<lparr>effects := effects self @ [CheckpointSaved filename]\<rparr>"

text \<open>
  \<^verbatim>\<open>UNetTrainer.__init__\<close> (lines 244-283).  The optimizer is built at line 263 from
  the parameters that require a gradient at that moment (\<^verbatim>\<open>optim.Adam\<close> refuses an
  empty list); \<^verbatim>\<open>load_checkpoint\<close> is called after it, at line 269, when
  \<^verbatim>\<open>checkpoint_dir\<close> is not empty; \<^verbatim>\<open>self.metrics\<close> is assigned last, at
  line 283, and holds a \<^verbatim>\<open>UNetMetrics\<close> instance.  Moving the network to the device, the
  gradient scaler and the creation of the checkpoint directory are left out.
\<close>

definition UNetTrainer_init ::
  "'w torch \<Rightarrow> 'a torchmetrics \<Rightarrow> module_globals \<Rightarrow> trainer_config
     \<Rightarrow> (py_error + unit) \<times> ('w, 'a) UNetTrainer" where
  "UNetTrainer_init T lib g cfg =
     (let net = UNET T 3 (cfg_num_classes cfg);
          self0 = \<lparr> image_size = cfg_image_size cfg,
                    trainer_num_classes = cfg_num_classes cfg,
                    batch_size = cfg_batch_size cfg,
                    num_epochs = cfg_num_epochs cfg,
                    learning_rate = cfg_learning_rate cfg,
                    checkpoint_dir = cfg_checkpoint_dir cfg,
                    freeze = cfg_freeze cfg,
                    num_workers = cfg_num_workers cfg,
                    pin_memory = cfg_pin_memory cfg,
                    checkpoint_path = None,
                    model = net,
                    optimizer = None,
                    trainer_metrics = None,
                    effects = [] \<rparr>;
          trainable = map fst (filter snd (parameters net)) in
      if trainable = [] then (Inl (ValueError ''optimizer got an empty parameter list''), self0)
      else
       (let self1 = self0\<lparr>optimizer := Some \<lparr> param_names = trainable, adam_state = adam_init T \<rparr>,
                          effects := [OptimizerBound trainable]\<rparr> in
        case (if checkpoint_dir self1 \<noteq> [] then load_checkpoint T g self1 else (Inr (), self1)) of
          (Inl e, self2) \<Rightarrow> (Inl e, self2)
        | (Inr _, self2) \<Rightarrow>
            (Inr (), self2\<lparr>trainer_metrics := Some (UNetMetrics_init lib (trainer_num_classes self2))\<rparr>)))"

text \<open>
  \<^verbatim>\<open>self.metrics["val"]\<close> (lines 474 and 513): \<^verbatim>\<open>self.metrics\<close> is unassigned or
  a \<^verbatim>\<open>UNetMetrics\<close> instance, and the class defines no \<^verbatim>\<open>__getitem__\<close>.
\<close>

definition trainer_metrics_getitem ::
  "('w, 'a) UNetTrainer \<Rightarrow> string \<Rightarrow> py_error + (string \<times> 'a metric) list" where
  "trainer_metrics_getitem self key =
     (case trainer_metrics self of
        None \<Rightarrow> Inl (AttributeError ''metrics'')
      | Some _ \<Rightarrow> Inl (TypeError ''UNetMetrics object is not subscriptable''))"

text \<open>\<^verbatim>\<open>for name, metric in ... .items(): result = metric(predictions, targets)\<close>.\<close>

fun call_each ::
  "'a torchmetrics \<Rightarrow> (string \<times> 'a metric) list \<Rightarrow> labels \<Rightarrow> labels \<Rightarrow> py_error + unit" where
  "call_each lib [] preds targets = Inr ()"
| "call_each lib ((name, (cls, st)) # rest) preds targets =
     (case fst (tm_forward lib cls st preds targets) of
        Inl e \<Rightarrow> Inl e
      | Inr _ \<Rightarrow> call_each lib rest preds targets)"

record summary =
  loss :: real
  accuracy :: real

type_synonym loader = "(real tensor4 \<times> labels) list"

text \<open>
  \<^verbatim>\<open>UNetTrainer.validate_one_batch\<close> (lines 442-484).  \<^verbatim>\<open>self.model.eval()\<close>
  is the first statement and \<^verbatim>\<open>self.model.train()\<close> the statement after the
  \<^verbatim>\<open>with\<close> block; no handler stands between them.
\<close>

definition validate_one_batch ::
  "'w torch \<Rightarrow> 'a torchmetrics \<Rightarrow> ('w, 'a) UNetTrainer \<Rightarrow> loader
     \<Rightarrow> (py_error + summary) \<times> ('w, 'a) UNetTrainer" where
  "validate_one_batch T lib self val_loader =
     (let self1 = self\<lparr>model := (model self)\<lparr>training := False\<rparr>\<rparr> in
      case val_loader of
        [] \<Rightarrow> (Inl StopIteration, self1)
      | (data, targets) # _ \<Rightarrow>
     (case one_hot_encoding (trainer_num_classes self1) targets of
        Inl e \<Rightarrow> (Inl e, self1)
      | Inr one_hot \<Rightarrow>
     (case forward T (model self1) data of
        Inl e \<Rightarrow> (Inl e, self1)
      | Inr logits \<Rightarrow>
     (case cross_entropy T logits one_hot of
        Inl e \<Rightarrow> (Inl e, self1)
      | Inr loss_value \<Rightarrow>
     (case argmax_dim1 one_hot of
        Inl e \<Rightarrow> (Inl e, self1)
      | Inr target_classes \<Rightarrow>
     (case argmax_dim1 logits of
        Inl e \<Rightarrow> (Inl e, self1)
      | Inr predictions \<Rightarrow>
     (case pixel_accuracy T predictions target_classes of
        Inl e \<Rightarrow> (Inl e, self1)
      | Inr acc_value \<Rightarrow>
     (case trainer_metrics_getitem self1 ''val'' of
        Inl e \<Rightarrow> (Inl e, self1)
      | Inr val_metrics \<Rightarrow>
     (case call_each lib val_metrics predictions target_classes of
        Inl e \<Rightarrow> (Inl e, self1)
      | Inr _ \<Rightarrow>
          (Inr \<lparr> loss = loss_value, accuracy = acc_value \<rparr>,
           self1\<lparr>model := (model self1)\<lparr>training := True\<rparr>\<rparr>))))))))))"

text \<open>
  \<^verbatim>\<open>UNetTrainer.validate_fn\<close> (lines 486-529).  The loop body reads the free name
  \<^verbatim>\<open>accuracy\<close> at line 518; the two means are taken at lines 520-521, before
  \<^verbatim>\<open>self.model.train()\<close> at line 524, and dividing by \<^verbatim>\<open>len(loader) = 0\<close> raises.
\<close>

fun validate_fn_loop ::
  "'w torch \<Rightarrow> 'a torchmetrics \<Rightarrow> module_globals \<Rightarrow> ('w, 'a) UNetTrainer \<Rightarrow> loader
     \<Rightarrow> real \<Rightarrow> real \<Rightarrow> py_error + real \<times> real" where
  "validate_fn_loop T lib g self [] running_loss running_accuracy =
     Inr (running_loss, running_accuracy)"
| "validate_fn_loop T lib g self ((data, targets) # rest) running_loss running_accuracy =
     (case one_hot_encoding (trainer_num_classes self) targets of
        Inl e \<Rightarrow> Inl e
      | Inr one_hot \<Rightarrow>
     (case forward T (model self) data of
        Inl e \<Rightarrow> Inl e
      | Inr logits \<Rightarrow>
     (case cross_entropy T logits one_hot of
        Inl e \<Rightarrow> Inl e
      | Inr loss_value \<Rightarrow>
     (case argmax_dim1 one_hot of
        Inl e \<Rightarrow> Inl e
      | Inr target_classes \<Rightarrow>
     (case argmax_dim1 logits of
        Inl e \<Rightarrow> Inl e
      | Inr predictions \<Rightarrow>
     (case trainer_metrics_getitem self ''val'' of
        Inl e \<Rightarrow> Inl e
      | Inr val_metrics \<Rightarrow>
     (case call_each lib val_metrics predictions target_classes of
        Inl e \<Rightarrow> Inl e
      | Inr _ \<Rightarrow>
     (case global_accuracy g of
        None \<Rightarrow> Inl (NameError ''accuracy'')
      | Some acc_value \<Rightarrow>
          validate_fn_loop T lib g self rest
            (running_loss + loss_value) (running_accuracy + acc_value)))))))))"

definition validate_fn ::
  "'w torch \<Rightarrow> 'a torchmetrics \<Rightarrow> module_globals \<Rightarrow> ('w, 'a) UNetTrainer \<Rightarrow> loader
     \<Rightarrow> (py_error + summary) \<times> ('w, 'a) UNetTrainer" where
  "validate_fn T lib g self val_loader =
     (let self1 = self\<lparr>model := (model self)\<lparr>training := False\<rparr>\<rparr> in
      case validate_fn_loop T lib g self1 val_loader 0 0 of
        Inl e \<Rightarrow> (Inl e, self1)
      | Inr (running_loss, running_accuracy) \<Rightarrow>
          if length val_loader = 0 then (Inl ZeroDivisionError, self1)
          else (Inr \<lparr> loss = running_loss / real (length val_loader),
                      accuracy = running_accuracy / real (length val_loader) \<rparr>,
                self1\<lparr>model := (model self1)\<lparr>training := True\<rparr>\<rparr>))"

text \<open>
  \<^verbatim>\<open>UNetTrainer.run\<close> (lines 531-588), with the validation pass it calls and the
  two loaders that lines 533-536 build as parameters.  \<^verbatim>\<open>best_loss\<close> starts at
  \<open>9999\<close>.  The body of the epoch loop calls the
  validation pass (line 545) and then executes \<^verbatim>\<open>return\<close> (line 546): the comparison
  with \<^verbatim>\<open>best_loss\<close> and the call that saves a checkpoint (lines 548-568) stand after
  that \<^verbatim>\<open>return\<close> in the same body, so no execution reaches them, and the function
  is left in the first epoch.  With no epoch to run, the final validation of line 571 is
  reached, and line 572 then reads the loop variable \<^verbatim>\<open>epoch\<close>, which no iteration has
  bound.
\<close>

definition run_with ::
  "(('w, 'a) UNetTrainer \<Rightarrow> loader \<Rightarrow> (py_error + summary) \<times> ('w, 'a) UNetTrainer)
     \<Rightarrow> ('w, 'a) UNetTrainer \<Rightarrow> loader \<Rightarrow> loader
     \<Rightarrow> (py_error + unit) \<times> ('w, 'a) UNetTrainer" where
  "run_with validate self train_loader val_loader =
     (let best_loss = (9999 :: real) in
      if 0 < num_epochs self then
        (case validate self val_loader of
           (Inl e, self1) \<Rightarrow> (Inl e, self1)
         | (Inr results, self1) \<Rightarrow> (Inr (), self1))
      else
        (case validate self val_loader of
           (Inl e, self1) \<Rightarrow> (Inl e, self1)
         | (Inr results, self1) \<Rightarrow> (Inl (NameError ''epoch''), self1)))"

definition run ::
  "'w torch \<Rightarrow> 'a torchmetrics \<Rightarrow> module_globals \<Rightarrow> ('w, 'a) UNetTrainer \<Rightarrow> loader \<Rightarrow> loader
     \<Rightarrow> (py_error + unit) \<times> ('w, 'a) UNetTrainer" where
  "run T lib g self train_loader val_loader =
     run_with (validate_fn T lib g) self train_loader val_loader"

text \<open>
  The keys and accumulator classes that \<^verbatim>\<open>__init__\<close> gives the two dictionaries; no
  method adds or removes a key.
\<close>

definition engine_shape :: "'a UNetMetrics \<Rightarrow> bool" where
  "engine_shape self \<longleftrightarrow>
     (\<exists>ta td va vd ts tl tc te vs vl vc ve.
        metrics self = [(''train'', [(''acc'', (Accuracy, ta)), (''dice'', (Dice, td))]),
                        (''val'', [(''acc'', (Accuracy, va)), (''dice'', (Dice, vd))])]
      \<and> plots self = [(''train'', [(''step'', ts), (''loss'', tl), (''acc'', tc), (''dice'', te)]),
                      (''val'', [(''step'', vs), (''loss'', vl), (''acc'', vc), (''dice'', ve)])])"

text \<open>
  An instance of the library for concrete evaluations.  Both accumulators count, over the
  positions whose target is not the background class \<open>0\<close>, the positions where prediction
  and target agree; a call on tensors of different shapes raises.
\<close>

definition pixel_counts :: "labels \<Rightarrow> labels \<Rightarrow> nat \<times> nat" where
  "pixel_counts preds targets =
     (let pairs = filter (\<lambda>(p, t). t \<noteq> 0) (zip (concat (concat preds)) (concat (concat targets)))
      in (length (filter (\<lambda>(p, t). p = t) pairs), length pairs))"

definition ratio :: "nat \<times> nat \<Rightarrow> real" where
  "ratio c = (if snd c = 0 then 0 else real (fst c) / real (snd c))"

definition counting_metrics :: "(nat \<times> nat) torchmetrics" where
  "counting_metrics =
     \<lparr> tm_new = (\<lambda>cls n. (0, 0)),
       tm_forward = (\<lambda>cls st preds targets.
          if map (map length) preds \<noteq> map (map length) targets
          then (Inl (RuntimeError ''shape mismatch''), st)
          else (Inr (ratio (pixel_counts preds targets)),
                (fst st + fst (pixel_counts preds targets),
                 snd st + snd (pixel_counts preds targets)))),
       tm_compute = (\<lambda>cls st. ratio st) \<rparr>"




text \<open>
  An instance of the outside world for concrete evaluations: a network with three named
  parameters whose scores are its input, a loss that checks that scores and targets have one
  shape, and no checkpoint file on disk.
\<close>

definition example_torch :: "unit torch" where
  "example_torch =
     \<lparr> UNET = (\<lambda>in_channels out_channels.
                 \<lparr> parameters = [(''downs.0.conv.0.weight'', True),
                                 (''final_conv.weight'', True),
                                 (''final_conv.bias'', True)],
                   state_dict = (), training = True \<rparr>),
       adam_init = (),
       torch_load = (\<lambda>path. Inl (FileNotFoundError path)),
       load_state_dict = (\<lambda>old new. Inr new),
       forward = (\<lambda>net data. Inr data),
       cross_entropy = (\<lambda>logits one_hot.
          if map (map (map length)) logits = map (map (map length)) one_hot
          then Inr 0 else Inl (RuntimeError ''shape mismatch'')),
       pixel_accuracy = (\<lambda>preds targets. Inr 1) \<rparr>"

definition example_config :: trainer_config where
  "example_config =
     \<lparr> cfg_image_size = 2, cfg_num_classes = 3, cfg_batch_size = 1, cfg_num_epochs = 4,
       cfg_learning_rate = 5 / 10000, cfg_checkpoint_dir = [], cfg_freeze = False,
       cfg_num_workers = 0, cfg_pin_memory = False \<rparr>"

section \<open>Verified properties\<close>

subsection \<open>One-hot encoding followed by arg-max\<close>

lemma first_max_replicate:
  "z \<le> bv \<Longrightarrow> first_max best bv i (replicate n z) = best"
  by (induction n arbitrary: i) auto

lemma first_max_zeros_one:
  "first_max best (0::int) i (replicate n 0 @ 1 # replicate m 0) = i + n"
  by (induction n arbitrary: i) (auto simp: first_max_replicate)

lemma one_hot_row_split:
  "k < C \<Longrightarrow> one_hot_row C (int k) = replicate k 0 @ 1 # replicate (C - Suc k) 0"
  unfolding one_hot_row_def
  by (rule nth_equalityI) (auto simp: nth_append nth_Cons split: nat.splits)

lemma argmax_one_hot_row:
  assumes "0 \<le> v" "v < int C"
  shows "int (argmax_list (one_hot_row C v)) = v"
proof -
  obtain k where k: "v = int k" "k < C"
    using assms by (metis nonneg_int_cases of_nat_less_iff)
  have row: "one_hot_row C v = replicate k 0 @ 1 # replicate (C - Suc k) 0"
    using k one_hot_row_split by simp
  show ?thesis
  proof (cases k)
    case 0
    then show ?thesis
      unfolding row using k by (simp add: argmax_list_def first_max_replicate)
  next
    case (Suc j)
    then show ?thesis
      unfolding row using k first_max_zeros_one [of 0 1 j "C - Suc k"]
      by (simp add: argmax_list_def)
  qed
qed

lemma argmax_planes_one_hot:
  assumes "0 < C" and "\<forall>row \<in> set img. \<forall>v \<in> set row. 0 \<le> v \<and> v < int C"
  shows "argmax_planes (map (\<lambda>c. map (map (\<lambda>px. px ! c)) (map (map (one_hot_row C)) img)) [0..<C])
           = Inr img"
proof -
  let ?planes = "map (\<lambda>c. map (map (\<lambda>px. px ! c)) (map (map (one_hot_row C)) img)) [0..<C]"
  have len: "length (one_hot_row C v) = C" for v by (simp add: one_hot_row_def)
  have px: "map (\<lambda>pl. pl ! h ! w) ?planes = one_hot_row C (img ! h ! w)"
    if "h < length img" "w < length (img ! h)" for h w
    using that len by (auto intro!: nth_equalityI)
  have entry: "int (argmax_list (map (\<lambda>pl. pl ! h ! w) ?planes)) = img ! h ! w"
    if h: "h < length img" and w: "w < length (img ! h)" for h w
  proof -
    have "img ! h \<in> set img" "img ! h ! w \<in> set (img ! h)" using h w by auto
    then have "0 \<le> img ! h ! w \<and> img ! h ! w < int C" using assms(2) by blast
    then show ?thesis using px [OF h w] argmax_one_hot_row by simp
  qed
  have rows: "map (\<lambda>w. int (argmax_list (map (\<lambda>pl. pl ! h ! w) ?planes))) [0..<length (img ! h)]
                = img ! h" if h: "h < length img" for h
    using entry [OF h] by (auto intro!: nth_equalityI)
  obtain p0 ps where planes: "?planes = p0 # ps"
    and p0: "p0 = map (map (\<lambda>px. px ! 0)) (map (map (one_hot_row C)) img)"
    using assms(1) by (cases C) (auto simp: upt_conv_Cons simp del: upt_Suc)
  have "argmax_planes ?planes =
          Inr (map (\<lambda>h. map (\<lambda>w. int (argmax_list (map (\<lambda>pl. pl ! h ! w) ?planes)))
                              [0..<length (p0 ! h)]) [0..<length p0])"
    unfolding argmax_planes_def planes by simp
  also have "map (\<lambda>h. map (\<lambda>w. int (argmax_list (map (\<lambda>pl. pl ! h ! w) ?planes)))
                              [0..<length (p0 ! h)]) [0..<length p0] = img"
    using rows by (auto intro!: nth_equalityI simp: p0)
  finally show ?thesis .
qed

lemma sequence_map_Inr: "sequence (map Inr xs) = Inr xs"
  by (induction xs) auto

lemma functional_one_hot_in_range:
  assumes "0 < n" and "\<forall>img \<in> set label. \<forall>row \<in> set img. \<forall>v \<in> set row. 0 \<le> v \<and> v < n"
  shows "functional_one_hot label n = Inr (nat n, map (map (map (one_hot_row (nat n)))) label)"
proof -
  have "\<forall>v \<in> set (concat (concat label)). 0 \<le> v \<and> v < n"
    using assms(2) by auto
  then have "\<not> (\<exists>v \<in> set (concat (concat label)). v < 0)"
    and "\<not> (\<exists>v \<in> set (concat (concat label)). n \<le> v)"
    by (force+)
  then show ?thesis
    using assms(1) unfolding functional_one_hot_def Let_def by simp
qed

text \<open>
  Claim C9.  For a label tensor whose entries are class indices in \<open>[0, num_classes)\<close>, with
  at least one class, \<open>one_hot_encoding\<close> returns a tensor with one batch element per label
  image and \<open>num_classes\<close> planes in each, and the arg-max along the class dimension of that
  tensor is the label tensor itself.
\<close>

theorem one_hot_argmax_round_trip:
  assumes "0 < n" and "\<forall>img \<in> set label. \<forall>row \<in> set img. \<forall>v \<in> set row. 0 \<le> v \<and> v < n"
  shows "\<exists>t. one_hot_encoding n label = Inr t
            \<and> length t = length label \<and> list_all (\<lambda>planes. length planes = nat n) t
            \<and> argmax_dim1 t = Inr label"
proof -
  let ?C = "nat n"
  let ?t = "permute_0312 ?C (map (map (map (one_hot_row ?C))) label)"
  have enc: "one_hot_encoding n label = Inr ?t"
    by (simp add: one_hot_encoding_def functional_one_hot_in_range [OF assms])
  have C: "0 < ?C" using assms(1) by simp
  have "argmax_planes (map (\<lambda>c. map (map (\<lambda>px. px ! c)) (map (map (one_hot_row ?C)) img)) [0..<?C])
          = Inr img" if "img \<in> set label" for img
    using that assms by (intro argmax_planes_one_hot [OF C]) auto
  then have "map argmax_planes ?t = map Inr label"
    by (simp add: permute_0312_def comp_def)
  then have "argmax_dim1 ?t = Inr label"
    by (simp add: argmax_dim1_def sequence_map_Inr)
  moreover have "length ?t = length label" "list_all (\<lambda>planes. length planes = ?C) ?t"
    by (simp_all add: permute_0312_def list_all_iff)
  ultimately show ?thesis using enc by blast
qed

text \<open>At the \<open>1 \<times> 2 \<times> 2\<close> label tensor \<open>[[[0, 2], [1, 0]]]\<close> with three classes.\<close>

theorem one_hot_argmax_round_trip_witness:
  "one_hot_encoding 3 [[[0, 2], [1, 0]]]
     = Inr [[[[1, 0], [0, 1]], [[0, 0], [1, 0]], [[0, 1], [0, 0]]]]
   \<and> argmax_dim1 [[[[1, 0], [0, 1]], [[0, 0], [1, 0]], [[0, 1], [0, 0 :: int]]]]
     = Inr [[[0, 2], [1, 0]]]"
proof -
  have enc: "one_hot_encoding 3 [[[0, 2], [1, 0]]]
     = Inr [[[[1, 0], [0, 1]], [[0, 0], [1, 0]], [[0, 1], [0, 0]]]]"
    by (simp add: one_hot_encoding_def functional_one_hot_def permute_0312_def one_hot_row_def
        upt_conv_Cons del: upt_Suc)
  have "(0::int) < 3" by simp
  moreover have "\<forall>img \<in> set [[[0, 2], [1, 0 :: int]]]. \<forall>row \<in> set img. \<forall>v \<in> set row. 0 \<le> v \<and> v < 3"
    by simp
  ultimately obtain t where "one_hot_encoding 3 [[[0, 2], [1, 0]]] = Inr t"
    "argmax_dim1 t = Inr [[[0, 2], [1, 0]]]"
    using one_hot_argmax_round_trip [of 3 "[[[0, 2], [1, 0]]]"] by blast
  then show ?thesis using enc by simp
qed

subsection \<open>The metrics engine keeps its shape; what one update changes\<close>

lemma engine_shape_init: "engine_shape (UNetMetrics_init lib n)"
  unfolding engine_shape_def UNetMetrics_init_def by simp

lemma update_train_stage:
  assumes "train_flag m"
    and "metrics m = [(''train'', [(''acc'', (Accuracy, ta)), (''dice'', (Dice, td))]), (''val'', V)]"
    and "plots m = [(''train'', [(''step'', tss), (''loss'', tls), (''acc'', tc), (''dice'', te)]), (''val'', P)]"
  shows "update lib step lv p t m =
     (case tm_forward lib Accuracy ta p t of
        (Inl e, ta') \<Rightarrow>
          (Inl e, m\<lparr>metrics := [(''train'', [(''acc'', (Accuracy, ta')), (''dice'', (Dice, td))]), (''val'', V)]\<rparr>)
      | (Inr a, ta') \<Rightarrow>
          (case tm_forward lib Dice td p t of
             (Inl e, td') \<Rightarrow>
               (Inl e, m\<lparr>metrics := [(''train'', [(''acc'', (Accuracy, ta')), (''dice'', (Dice, td'))]), (''val'', V)]\<rparr>)
           | (Inr d, td') \<Rightarrow>
               (Inr (), m\<lparr>metrics := [(''train'', [(''acc'', (Accuracy, ta')), (''dice'', (Dice, td'))]), (''val'', V)],
                          plots := [(''train'', [(''step'', tss @ [PyInt step]), (''loss'', tls @ [PyFloat lv]),
                                                 (''acc'', tc @ [PyFloat a]), (''dice'', te @ [PyFloat d])]),
                                    (''val'', P)]\<rparr>)))"
  using assms
  by (simp add: update_def metric_call_def plot_append_def getitem_def Let_def
      split: prod.splits sum.splits)

lemma update_val_stage:
  assumes "\<not> train_flag m"
    and "metrics m = [(''train'', V), (''val'', [(''acc'', (Accuracy, ta)), (''dice'', (Dice, td))])]"
    and "plots m = [(''train'', P), (''val'', [(''step'', tss), (''loss'', tls), (''acc'', tc), (''dice'', te)])]"
  shows "update lib step lv p t m =
     (case tm_forward lib Accuracy ta p t of
        (Inl e, ta') \<Rightarrow>
          (Inl e, m\<lparr>metrics := [(''train'', V), (''val'', [(''acc'', (Accuracy, ta')), (''dice'', (Dice, td))])]\<rparr>)
      | (Inr a, ta') \<Rightarrow>
          (case tm_forward lib Dice td p t of
             (Inl e, td') \<Rightarrow>
               (Inl e, m\<lparr>metrics := [(''train'', V), (''val'', [(''acc'', (Accuracy, ta')), (''dice'', (Dice, td'))])]\<rparr>)
           | (Inr d, td') \<Rightarrow>
               (Inr (), m\<lparr>metrics := [(''train'', V), (''val'', [(''acc'', (Accuracy, ta')), (''dice'', (Dice, td'))])],
                          plots := [(''train'', P),
                                    (''val'', [(''step'', tss @ [PyInt step]), (''loss'', tls @ [PyFloat lv]),
                                               (''acc'', tc @ [PyFloat a]), (''dice'', te @ [PyFloat d])])]\<rparr>)))"
  using assms
  by (simp add: update_def metric_call_def plot_append_def getitem_def Let_def
      split: prod.splits sum.splits)


lemma update_shape:
  assumes "engine_shape m"
  shows "engine_shape (snd (update lib step lv p t m))"
proof -
  obtain ta td va vd xs1 xs2 xs3 xs4 ys1 ys2 ys3 ys4 where
    M: "metrics m = [(''train'', [(''acc'', (Accuracy, ta)), (''dice'', (Dice, td))]),
                     (''val'', [(''acc'', (Accuracy, va)), (''dice'', (Dice, vd))])]"
    and P: "plots m = [(''train'', [(''step'', xs1), (''loss'', xs2), (''acc'', xs3), (''dice'', xs4)]),
                      (''val'', [(''step'', ys1), (''loss'', ys2), (''acc'', ys3), (''dice'', ys4)])]"
    using assms unfolding engine_shape_def by blast
  show ?thesis
  proof (cases "train_flag m")
    case True
    show ?thesis
      unfolding update_train_stage [OF True M P] engine_shape_def
      by (simp add: M P split: prod.splits sum.splits)
  next
    case False
    show ?thesis
      unfolding update_val_stage [OF False M P] engine_shape_def
      by (simp add: M P split: prod.splits sum.splits)
  qed
qed

lemma update_other_stage:
  assumes "engine_shape m"
  shows "getitem (metrics (snd (update lib step lv p t m))) (if train_flag m then ''val'' else ''train'')
           = getitem (metrics m) (if train_flag m then ''val'' else ''train'')
       \<and> getitem (plots (snd (update lib step lv p t m))) (if train_flag m then ''val'' else ''train'')
           = getitem (plots m) (if train_flag m then ''val'' else ''train'')"
proof -
  obtain ta td va vd xs1 xs2 xs3 xs4 ys1 ys2 ys3 ys4 where
    M: "metrics m = [(''train'', [(''acc'', (Accuracy, ta)), (''dice'', (Dice, td))]),
                     (''val'', [(''acc'', (Accuracy, va)), (''dice'', (Dice, vd))])]"
    and P: "plots m = [(''train'', [(''step'', xs1), (''loss'', xs2), (''acc'', xs3), (''dice'', xs4)]),
                      (''val'', [(''step'', ys1), (''loss'', ys2), (''acc'', ys3), (''dice'', ys4)])]"
    using assms unfolding engine_shape_def by blast
  show ?thesis
  proof (cases "train_flag m")
    case True
    show ?thesis
      unfolding update_train_stage [OF True M P]
      by (simp add: True M P getitem_def split: prod.splits sum.splits)
  next
    case False
    show ?thesis
      unfolding update_val_stage [OF False M P]
      by (simp add: False M P getitem_def split: prod.splits sum.splits)
  qed
qed

lemma update_train_flag:
  assumes "engine_shape m"
  shows "train_flag (snd (update lib step lv p t m)) = train_flag m"
proof -
  obtain ta td va vd xs1 xs2 xs3 xs4 ys1 ys2 ys3 ys4 where
    M: "metrics m = [(''train'', [(''acc'', (Accuracy, ta)), (''dice'', (Dice, td))]),
                     (''val'', [(''acc'', (Accuracy, va)), (''dice'', (Dice, vd))])]"
    and P: "plots m = [(''train'', [(''step'', xs1), (''loss'', xs2), (''acc'', xs3), (''dice'', xs4)]),
                      (''val'', [(''step'', ys1), (''loss'', ys2), (''acc'', ys3), (''dice'', ys4)])]"
    using assms unfolding engine_shape_def by blast
  show ?thesis
  proof (cases "train_flag m")
    case True
    show ?thesis
      unfolding update_train_stage [OF True M P]
      by (simp split: prod.splits sum.splits)
  next
    case False
    show ?thesis
      unfolding update_val_stage [OF False M P]
      by (simp split: prod.splits sum.splits)
  qed
qed

lemma engine_step_shape: "engine_shape m \<Longrightarrow> engine_shape (engine_step lib c m)"
proof (cases c)
  case (CallUpdate step lv p t)
  assume "engine_shape m"
  then show ?thesis using CallUpdate by (simp add: update_shape)
qed (simp_all add: UNetMetrics_train_def UNetMetrics_eval_def engine_shape_def)

lemma engine_run_shape: "engine_shape m \<Longrightarrow> engine_shape (engine_run lib cs m)"
  unfolding engine_run_def
  by (induction cs arbitrary: m) (simp_all add: engine_step_shape)

lemma engine_run_Cons: "engine_run lib (c # cs) m = engine_run lib cs (engine_step lib c m)"
  by (simp add: engine_run_def)

lemma engine_run_Nil: "engine_run lib [] m = m"
  by (simp add: engine_run_def)

lemma compute_shape:
  assumes "metrics m = [(''train'', [(''acc'', (Accuracy, ta)), (''dice'', (Dice, td))]),
                        (''val'', [(''acc'', (Accuracy, va)), (''dice'', (Dice, vd))])]"
  shows "compute lib m = [(''train'', [(''dice'', tm_compute lib Dice td)]),
                          (''val'', [(''dice'', tm_compute lib Dice vd)])]"
  by (simp add: compute_def assms)

lemma compute_stage_depends:
  assumes "engine_shape m" "engine_shape m'"
    and "getitem (metrics m') stage = getitem (metrics m) stage"
  shows "getitem (compute lib m') stage = getitem (compute lib m) stage"
proof -
  obtain ta td va vd where
    M: "metrics m = [(''train'', [(''acc'', (Accuracy, ta)), (''dice'', (Dice, td))]),
                     (''val'', [(''acc'', (Accuracy, va)), (''dice'', (Dice, vd))])]"
    using assms(1) unfolding engine_shape_def by blast
  obtain ta' td' va' vd' where
    M': "metrics m' = [(''train'', [(''acc'', (Accuracy, ta')), (''dice'', (Dice, td'))]),
                     (''val'', [(''acc'', (Accuracy, va')), (''dice'', (Dice, vd'))])]"
    using assms(2) unfolding engine_shape_def by blast
  show ?thesis
    using assms(3)
    unfolding compute_shape [OF M] compute_shape [OF M']
    by (auto simp: M M' getitem_def split: if_splits)
qed


lemma update_series_length:
  assumes "engine_shape m" and "stage = ''train'' \<or> stage = ''val''"
    and "name = ''step'' \<or> name = ''loss'' \<or> name = ''acc'' \<or> name = ''dice''"
  shows "length (series (snd (update lib step lv p t m)) stage name)
         = length (series m stage name)
           + (if (if train_flag m then ''train'' else ''val'') = stage
                 \<and> fst (update lib step lv p t m) = Inr () then 1 else 0)"
proof -
  obtain ta td va vd xs1 xs2 xs3 xs4 ys1 ys2 ys3 ys4 where
    M: "metrics m = [(''train'', [(''acc'', (Accuracy, ta)), (''dice'', (Dice, td))]),
                     (''val'', [(''acc'', (Accuracy, va)), (''dice'', (Dice, vd))])]"
    and P: "plots m = [(''train'', [(''step'', xs1), (''loss'', xs2), (''acc'', xs3), (''dice'', xs4)]),
                      (''val'', [(''step'', ys1), (''loss'', ys2), (''acc'', ys3), (''dice'', ys4)])]"
    using assms(1) unfolding engine_shape_def by blast
  show ?thesis
  proof (cases "train_flag m")
    case True
    show ?thesis
      unfolding update_train_stage [OF True M P]
      using assms(2,3)
      by (auto simp: True P series_def getitem_def split: prod.splits sum.splits)
  next
    case False
    show ?thesis
      unfolding update_val_stage [OF False M P]
      using assms(2,3)
      by (auto simp: False P series_def getitem_def split: prod.splits sum.splits)
  qed
qed

lemma engine_step_series_length:
  assumes "engine_shape m" and "stage = ''train'' \<or> stage = ''val''"
    and "name = ''step'' \<or> name = ''loss'' \<or> name = ''acc'' \<or> name = ''dice''"
  shows "length (series (engine_step lib c m) stage name)
         = length (series m stage name) + updates_returned lib stage [c] m"
proof (cases c)
  case (CallUpdate step lv p t)
  then show ?thesis
    using update_series_length [OF assms, of lib step lv p t] by simp
qed (simp_all add: UNetMetrics_train_def UNetMetrics_eval_def series_def)

lemma engine_run_series_length:
  assumes "engine_shape m" and "stage = ''train'' \<or> stage = ''val''"
    and "name = ''step'' \<or> name = ''loss'' \<or> name = ''acc'' \<or> name = ''dice''"
  shows "length (series (engine_run lib cs m) stage name)
         = length (series m stage name) + updates_returned lib stage cs m"
  using assms(1)
proof (induction cs arbitrary: m)
  case Nil
  then show ?case by (simp add: engine_run_Nil)
next
  case (Cons c cs)
  have "length (series (engine_run lib (c # cs) m) stage name)
        = length (series (engine_step lib c m) stage name)
          + updates_returned lib stage cs (engine_step lib c m)"
    using Cons.IH [OF engine_step_shape [OF Cons.prems]] by (simp add: engine_run_Cons)
  also have "length (series (engine_step lib c m) stage name)
        = length (series m stage name) + updates_returned lib stage [c] m"
    by (rule engine_step_series_length [OF Cons.prems assms(2,3)])
  finally show ?case by simp
qed

lemma series_init: "series (UNetMetrics_init lib n) stage name = []"
  by (simp add: series_def UNetMetrics_init_def getitem_def)

lemma update_extends:
  assumes "engine_shape m" and "fst (update lib step lv p t m) = Inr ()"
  shows "\<exists>a d. fst (metric_call lib (if train_flag m then ''train'' else ''val'') ''acc'' p t m) = Inr a
       \<and> fst (metric_call lib (if train_flag m then ''train'' else ''val'') ''dice'' p t
                (snd (metric_call lib (if train_flag m then ''train'' else ''val'') ''acc'' p t m))) = Inr d
       \<and> series (snd (update lib step lv p t m)) (if train_flag m then ''train'' else ''val'') ''step''
           = series m (if train_flag m then ''train'' else ''val'') ''step'' @ [PyInt step]
       \<and> series (snd (update lib step lv p t m)) (if train_flag m then ''train'' else ''val'') ''loss''
           = series m (if train_flag m then ''train'' else ''val'') ''loss'' @ [PyFloat lv]
       \<and> series (snd (update lib step lv p t m)) (if train_flag m then ''train'' else ''val'') ''acc''
           = series m (if train_flag m then ''train'' else ''val'') ''acc'' @ [PyFloat a]
       \<and> series (snd (update lib step lv p t m)) (if train_flag m then ''train'' else ''val'') ''dice''
           = series m (if train_flag m then ''train'' else ''val'') ''dice'' @ [PyFloat d]"
proof -
  obtain ta td va vd xs1 xs2 xs3 xs4 ys1 ys2 ys3 ys4 where
    M: "metrics m = [(''train'', [(''acc'', (Accuracy, ta)), (''dice'', (Dice, td))]),
                     (''val'', [(''acc'', (Accuracy, va)), (''dice'', (Dice, vd))])]"
    and P: "plots m = [(''train'', [(''step'', xs1), (''loss'', xs2), (''acc'', xs3), (''dice'', xs4)]),
                      (''val'', [(''step'', ys1), (''loss'', ys2), (''acc'', ys3), (''dice'', ys4)])]"
    using assms(1) unfolding engine_shape_def by blast
  show ?thesis
  proof (cases "train_flag m")
    case True
    show ?thesis
      using assms(2) unfolding update_train_stage [OF True M P]
      by (auto simp: True M P series_def getitem_def metric_call_def split: prod.splits sum.splits)
  next
    case False
    show ?thesis
      using assms(2) unfolding update_val_stage [OF False M P]
      by (auto simp: False M P series_def getitem_def metric_call_def split: prod.splits sum.splits)
  qed
qed

lemma update_raises_keeps_plots:
  assumes "engine_shape m" and "fst (update lib step lv p t m) \<noteq> Inr ()"
  shows "plots (snd (update lib step lv p t m)) = plots m"
proof -
  obtain ta td va vd xs1 xs2 xs3 xs4 ys1 ys2 ys3 ys4 where
    M: "metrics m = [(''train'', [(''acc'', (Accuracy, ta)), (''dice'', (Dice, td))]),
                     (''val'', [(''acc'', (Accuracy, va)), (''dice'', (Dice, vd))])]"
    and P: "plots m = [(''train'', [(''step'', xs1), (''loss'', xs2), (''acc'', xs3), (''dice'', xs4)]),
                      (''val'', [(''step'', ys1), (''loss'', ys2), (''acc'', ys3), (''dice'', ys4)])]"
    using assms(1) unfolding engine_shape_def by blast
  show ?thesis
  proof (cases "train_flag m")
    case True
    show ?thesis
      using assms(2) unfolding update_train_stage [OF True M P]
      by (auto split: prod.splits sum.splits)
  next
    case False
    show ?thesis
      using assms(2) unfolding update_val_stage [OF False M P]
      by (auto split: prod.splits sum.splits)
  qed
qed

text \<open>
  Claim C10, as the code has it.  Let \<open>m\<close> be the engine after any sequence of calls on a
  fresh instance.  A call of \<^verbatim>\<open>update\<close> that returns appends exactly one element to
  each of the four series of the active stage: the step, the loss, and the two values the
  accumulators returned.  A call that raises appends nothing (the accumulator calls of lines
  96-97 stand before the appends), and no call changes a series of the other stage.  Hence
  in each stage the four series have one length, the number of \<^verbatim>\<open>update\<close> calls that
  returned while that stage was active.
\<close>

theorem update_appends_to_active_stage:
  "let m = engine_run lib calls (UNetMetrics_init lib n);
       stage = (if train_flag m then ''train'' else ''val'');
       other = (if train_flag m then ''val'' else ''train'');
       r = update lib step lv preds targets m
   in (fst r = Inr () \<longrightarrow>
         (\<exists>a d. fst (metric_call lib stage ''acc'' preds targets m) = Inr a
              \<and> fst (metric_call lib stage ''dice'' preds targets
                       (snd (metric_call lib stage ''acc'' preds targets m))) = Inr d
              \<and> series (snd r) stage ''step'' = series m stage ''step'' @ [PyInt step]
              \<and> series (snd r) stage ''loss'' = series m stage ''loss'' @ [PyFloat lv]
              \<and> series (snd r) stage ''acc'' = series m stage ''acc'' @ [PyFloat a]
              \<and> series (snd r) stage ''dice'' = series m stage ''dice'' @ [PyFloat d]))
    \<and> (fst r \<noteq> Inr () \<longrightarrow> plots (snd r) = plots m)
    \<and> getitem (plots (snd r)) other = getitem (plots m) other
    \<and> map (\<lambda>name. length (series m ''train'' name)) [''step'', ''loss'', ''acc'', ''dice'']
        = replicate 4 (updates_returned lib ''train'' calls (UNetMetrics_init lib n))
    \<and> map (\<lambda>name. length (series m ''val'' name)) [''step'', ''loss'', ''acc'', ''dice'']
        = replicate 4 (updates_returned lib ''val'' calls (UNetMetrics_init lib n))"
proof -
  define m where "m = engine_run lib calls (UNetMetrics_init lib n)"
  have shape: "engine_shape m"
    unfolding m_def by (rule engine_run_shape [OF engine_shape_init])
  have len: "length (series m stage name) = updates_returned lib stage calls (UNetMetrics_init lib n)"
    if "stage = ''train'' \<or> stage = ''val''"
      and "name = ''step'' \<or> name = ''loss'' \<or> name = ''acc'' \<or> name = ''dice''" for stage name
    unfolding m_def
    using engine_run_series_length [OF engine_shape_init [of lib n] that, where lib = lib and cs = calls]
    by (simp add: series_init)
  have lens: "map (\<lambda>name. length (series m stage name)) [''step'', ''loss'', ''acc'', ''dice'']
        = replicate 4 (updates_returned lib stage calls (UNetMetrics_init lib n))"
    if "stage = ''train'' \<or> stage = ''val''" for stage
    using len [OF that] by (simp add: numeral_eq_Suc)
  show ?thesis
    unfolding Let_def m_def [symmetric]
    using update_extends [OF shape, of lib step lv preds targets]
      update_raises_keeps_plots [OF shape, of lib step lv preds targets]
      update_other_stage [OF shape, of lib step lv preds targets]
      lens [of "''train''"] lens [of "''val''"]
    by simp
qed

text \<open>
  At the example library: one update in the training stage, \<^verbatim>\<open>eval()\<close>, then an update
  in the validation stage, which returns and extends the validation series only.
\<close>

lemmas engine_eval = engine_run_def UNetMetrics_init_def counting_metrics_def update_def
      metric_call_def plot_append_def getitem_def UNetMetrics_eval_def UNetMetrics_train_def
      pixel_counts_def ratio_def Let_def

theorem update_appends_to_active_stage_witness:
  "\<not> train_flag (engine_run counting_metrics [CallUpdate 0 (1/2) [[[1, 2]]] [[[1, 1]]], CallEval]
                    (UNetMetrics_init counting_metrics 3))
   \<and> fst (update counting_metrics 1 (1/4) [[[1, 2]]] [[[1, 1]]]
           (engine_run counting_metrics [CallUpdate 0 (1/2) [[[1, 2]]] [[[1, 1]]], CallEval]
              (UNetMetrics_init counting_metrics 3))) = Inr ()
   \<and> series (snd (update counting_metrics 1 (1/4) [[[1, 2]]] [[[1, 1]]]
           (engine_run counting_metrics [CallUpdate 0 (1/2) [[[1, 2]]] [[[1, 1]]], CallEval]
              (UNetMetrics_init counting_metrics 3)))) ''val'' ''step'' = [PyInt 1]
   \<and> series (snd (update counting_metrics 1 (1/4) [[[1, 2]]] [[[1, 1]]]
           (engine_run counting_metrics [CallUpdate 0 (1/2) [[[1, 2]]] [[[1, 1]]], CallEval]
              (UNetMetrics_init counting_metrics 3)))) ''val'' ''loss'' = [PyFloat (1/4)]"
proof -
  let ?m = "engine_run counting_metrics [CallUpdate 0 (1/2) [[[1, 2]]] [[[1, 1]]], CallEval]
              (UNetMetrics_init counting_metrics 3)"
  have flag: "\<not> train_flag ?m"
    by (simp add: engine_eval)
  have ret: "fst (update counting_metrics 1 (1/4) [[[1, 2]]] [[[1, 1]]] ?m) = Inr ()"
    by (simp add: engine_eval)
  have before: "series ?m ''val'' ''step'' = []" "series ?m ''val'' ''loss'' = []"
    by (simp_all add: engine_eval series_def)
  show ?thesis
    using update_appends_to_active_stage
      [where lib = counting_metrics
         and calls = "[CallUpdate 0 (1/2) [[[1, 2]]] [[[1, 1]]], CallEval]" and n = 3
         and step = 1 and lv = "1/4" and preds = "[[[1, 2]]]" and targets = "[[[1, 1]]]"]
      flag ret before
    by (auto simp: Let_def)
qed

text \<open>
  The claim as stated, for every call and the number of calls made, fails at a call that
  raises: on a fresh engine one \<^verbatim>\<open>update\<close> with predictions and targets of different
  shapes raises in the accuracy accumulator, the four training series stay empty, and their
  length differs from the one call made.
\<close>

theorem update_raising_call_counterexample:
  "fst (update counting_metrics 0 (1/2) [[[1, 2]]] [[[1]]] (UNetMetrics_init counting_metrics 3))
     = Inl (RuntimeError ''shape mismatch'')
   \<and> map (series (snd (update counting_metrics 0 (1/2) [[[1, 2]]] [[[1]]]
                          (UNetMetrics_init counting_metrics 3))) ''train'')
         [''step'', ''loss'', ''acc'', ''dice'']
     = [[], [], [], []]
   \<and> updates_made counting_metrics ''train'' [CallUpdate 0 (1/2) [[[1, 2]]] [[[1]]]]
        (UNetMetrics_init counting_metrics 3) = 1
   \<and> length (series (engine_run counting_metrics [CallUpdate 0 (1/2) [[[1, 2]]] [[[1]]]]
                        (UNetMetrics_init counting_metrics 3)) ''train'' ''step'')
     \<noteq> updates_made counting_metrics ''train'' [CallUpdate 0 (1/2) [[[1, 2]]] [[[1]]]]
        (UNetMetrics_init counting_metrics 3)"
  by (simp add: engine_run_def UNetMetrics_init_def counting_metrics_def update_def
      metric_call_def plot_append_def getitem_def series_def Let_def)


subsection \<open>Phase isolation, compute and the long-form table\<close>

lemma updates_keep_other_stage:
  assumes "engine_shape m"
  shows "engine_shape (engine_run lib (map (\<lambda>(step, lv, preds, targets). CallUpdate step lv preds targets) obs) m)
       \<and> train_flag (engine_run lib (map (\<lambda>(step, lv, preds, targets). CallUpdate step lv preds targets) obs) m)
           = train_flag m
       \<and> getitem (metrics (engine_run lib (map (\<lambda>(step, lv, preds, targets). CallUpdate step lv preds targets) obs) m))
            (if train_flag m then ''val'' else ''train'')
           = getitem (metrics m) (if train_flag m then ''val'' else ''train'')
       \<and> getitem (plots (engine_run lib (map (\<lambda>(step, lv, preds, targets). CallUpdate step lv preds targets) obs) m))
            (if train_flag m then ''val'' else ''train'')
           = getitem (plots m) (if train_flag m then ''val'' else ''train'')"
  using assms
proof (induction obs arbitrary: m)
  case Nil
  then show ?case by (simp add: engine_run_Nil)
next
  case (Cons ob obs)
  obtain step lv preds targets where ob: "ob = (step, lv, preds, targets)"
    by (cases ob) auto
  let ?m1 = "snd (update lib step lv preds targets m)"
  have s1: "engine_shape ?m1" by (rule update_shape [OF Cons.prems])
  have f1: "train_flag ?m1 = train_flag m" by (rule update_train_flag [OF Cons.prems])
  note o1 = update_other_stage [OF Cons.prems, of lib step lv preds targets]
  show ?case
    using Cons.IH [OF s1] f1 o1
    by (simp add: ob engine_run_Cons)
qed

text \<open>
  Claim C6.  Let \<open>m\<close> be the engine after any sequence of calls on a fresh instance.  After
  \<^verbatim>\<open>eval()\<close> and any number of \<^verbatim>\<open>update\<close> calls, returning or raising, the
  accumulators and the series of the training stage are those of \<open>m\<close>, and so is the
  training entry of \<^verbatim>\<open>compute()\<close>; the same holds for the validation stage after
  \<^verbatim>\<open>train()\<close> and any number of \<^verbatim>\<open>update\<close> calls.
\<close>

theorem phases_are_isolated:
  "let m = engine_run lib calls (UNetMetrics_init lib n);
       updates = map (\<lambda>(step, lv, preds, targets). CallUpdate step lv preds targets) obs;
       m_val = engine_run lib (CallEval # updates) m;
       m_train = engine_run lib (CallTrain # updates) m
   in getitem (compute lib m_val) ''train'' = getitem (compute lib m) ''train''
    \<and> getitem (metrics m_val) ''train'' = getitem (metrics m) ''train''
    \<and> getitem (plots m_val) ''train'' = getitem (plots m) ''train''
    \<and> getitem (compute lib m_train) ''val'' = getitem (compute lib m) ''val''
    \<and> getitem (metrics m_train) ''val'' = getitem (metrics m) ''val''
    \<and> getitem (plots m_train) ''val'' = getitem (plots m) ''val''"
proof -
  define m where "m = engine_run lib calls (UNetMetrics_init lib n)"
  define updates where
    "updates = map (\<lambda>(step, lv, preds, targets). CallUpdate step lv preds targets) obs"
  have shape: "engine_shape m"
    unfolding m_def by (rule engine_run_shape [OF engine_shape_init])
  have se: "engine_shape (UNetMetrics_eval m)" and fe: "\<not> train_flag (UNetMetrics_eval m)"
    and me: "metrics (UNetMetrics_eval m) = metrics m" and pe: "plots (UNetMetrics_eval m) = plots m"
    using shape by (simp_all add: UNetMetrics_eval_def engine_shape_def)
  have st: "engine_shape (UNetMetrics_train m)" and ft: "train_flag (UNetMetrics_train m)"
    and mt: "metrics (UNetMetrics_train m) = metrics m" and pt: "plots (UNetMetrics_train m) = plots m"
    using shape by (simp_all add: UNetMetrics_train_def engine_shape_def)
  let ?mv = "engine_run lib (CallEval # updates) m"
  let ?mt = "engine_run lib (CallTrain # updates) m"
  have v: "engine_shape ?mv" "getitem (metrics ?mv) ''train'' = getitem (metrics m) ''train''"
    "getitem (plots ?mv) ''train'' = getitem (plots m) ''train''"
    using updates_keep_other_stage [OF se, of lib obs] fe me pe
    by (simp_all add: engine_run_Cons updates_def)
  have t: "engine_shape ?mt" "getitem (metrics ?mt) ''val'' = getitem (metrics m) ''val''"
    "getitem (plots ?mt) ''val'' = getitem (plots m) ''val''"
    using updates_keep_other_stage [OF st, of lib obs] ft mt pt
    by (simp_all add: engine_run_Cons updates_def)
  have "getitem (compute lib ?mv) ''train'' = getitem (compute lib m) ''train''"
    by (rule compute_stage_depends [OF shape v(1) v(2)])
  moreover have "getitem (compute lib ?mt) ''val'' = getitem (compute lib m) ''val''"
    by (rule compute_stage_depends [OF shape t(1) t(2)])
  ultimately show ?thesis
    unfolding Let_def m_def [symmetric] updates_def [symmetric]
    using v t by simp
qed

text \<open>
  Claim C5.  On every engine reached from a fresh instance, the mapping that
  \<^verbatim>\<open>compute()\<close> returns has, for each of the two stages, the single key
  \<^verbatim>\<open>dice\<close>: the entry of the accuracy accumulator is overwritten.
\<close>

theorem compute_keeps_last_metric_only:
  "map (\<lambda>(stage, vals). (stage, map fst vals))
       (compute lib (engine_run lib calls (UNetMetrics_init lib n)))
     = [(''train'', [''dice'']), (''val'', [''dice''])]"
proof -
  have "engine_shape (engine_run lib calls (UNetMetrics_init lib n))"
    by (rule engine_run_shape [OF engine_shape_init])
  then obtain ta td va vd where
    M: "metrics (engine_run lib calls (UNetMetrics_init lib n))
          = [(''train'', [(''acc'', (Accuracy, ta)), (''dice'', (Dice, td))]),
             (''val'', [(''acc'', (Accuracy, va)), (''dice'', (Dice, vd))])]"
    unfolding engine_shape_def by blast
  show ?thesis
    unfolding compute_shape [OF M] by simp
qed

text \<open>
  Claim C7.  On every engine reached from a fresh instance, also one with no observation,
  \<^verbatim>\<open>_to_dataframe\<close> raises \<^verbatim>\<open>NameError\<close> for \<^verbatim>\<open>alt_names\<close> and returns no
  table; and whatever the module's namespace binds the name to, the call still raises (the
  series of steps is stored under \<^verbatim>\<open>step\<close>, the body reads it under
  \<^verbatim>\<open>batch\<close>).
\<close>

theorem to_dataframe_raises:
  "to_dataframe train_py (engine_run lib calls (UNetMetrics_init lib n))
     = Inl (NameError ''alt_names'')
   \<and> (\<exists>e. to_dataframe g (engine_run lib calls (UNetMetrics_init lib n)) = Inl e)"
proof -
  have "engine_shape (engine_run lib calls (UNetMetrics_init lib n))"
    by (rule engine_run_shape [OF engine_shape_init])
  then obtain xs1 xs2 xs3 xs4 ys1 ys2 ys3 ys4 where
    P: "plots (engine_run lib calls (UNetMetrics_init lib n))
          = [(''train'', [(''step'', xs1), (''loss'', xs2), (''acc'', xs3), (''dice'', xs4)]),
             (''val'', [(''step'', ys1), (''loss'', ys2), (''acc'', ys3), (''dice'', ys4)])]"
    unfolding engine_shape_def by blast
  have "to_dataframe train_py (engine_run lib calls (UNetMetrics_init lib n))
          = Inl (NameError ''alt_names'')"
    by (simp add: to_dataframe_def P train_py_def)
  moreover have "\<exists>e. to_dataframe g (engine_run lib calls (UNetMetrics_init lib n)) = Inl e"
    by (simp add: to_dataframe_def P getitem_def split: option.splits sum.splits)
  ultimately show ?thesis by blast
qed

subsection \<open>Loading a checkpoint\<close>

text \<open>
  The extension check of lines 290-293, on an instance whose attribute
  \<^verbatim>\<open>checkpoint_path\<close> holds a path: a path that does not end in \<^verbatim>\<open>.pth.tar\<close>
  raises \<^verbatim>\<open>ValueError\<close> and leaves the instance as it was.
\<close>

lemma load_checkpoint_extension_check:
  assumes "checkpoint_path self = Some path" and "\<not> endswith path ''.pth.tar''"
  shows "load_checkpoint T g self = (Inl (ValueError path), self)"
  using assms by (simp add: load_checkpoint_def)

text \<open>
  No statement assigns the attribute: the loader does not, and neither does the constructor,
  which stores the path it is given in \<^verbatim>\<open>checkpoint_dir\<close>.
\<close>

lemma load_checkpoint_keeps_path:
  "checkpoint_path (snd (load_checkpoint T g self)) = checkpoint_path self"
  unfolding load_checkpoint_def Let_def
  by (auto split: option.splits sum.splits)

lemma UNetTrainer_init_path:
  "checkpoint_path (snd (UNetTrainer_init T lib g cfg)) = None"
proof -
  have "checkpoint_path s' = None"
    if "load_checkpoint T g s = (r, s')" "checkpoint_path s = None" for s s' r
    using that load_checkpoint_keeps_path [of T g s] by simp
  then show ?thesis
    unfolding UNetTrainer_init_def Let_def
    by (fastforce split: prod.splits sum.splits)
qed

text \<open>
  Claim C8.  A checkpoint path reaches the loader only through the constructor.  With a path
  that does not end in \<^verbatim>\<open>.pth.tar\<close> the constructor raises \<^verbatim>\<open>AttributeError\<close> for
  \<^verbatim>\<open>checkpoint_path\<close> at line 290, exactly as it does with a path that has the
  extension: the attribute is unset on every instance the constructor builds, and on such an
  instance the loader raises that error before the extension is looked at, whatever the
  namespace.  The \<^verbatim>\<open>ValueError\<close> of line 293 is not raised on this route.
\<close>

theorem constructor_path_raises_attribute_error:
  "fst (UNetTrainer_init example_torch counting_metrics train_py
          (example_config\<lparr>cfg_checkpoint_dir := ''weights.pt''\<rparr>))
     = Inl (AttributeError ''checkpoint_path'')
   \<and> fst (UNetTrainer_init example_torch counting_metrics train_py
          (example_config\<lparr>cfg_checkpoint_dir := ''unet.pth.tar''\<rparr>))
     = Inl (AttributeError ''checkpoint_path'')
   \<and> checkpoint_path (snd (UNetTrainer_init T lib g cfg)) = None
   \<and> load_checkpoint T g (self\<lparr>checkpoint_path := None\<rparr>)
     = (Inl (AttributeError ''checkpoint_path''), self\<lparr>checkpoint_path := None\<rparr>)"
proof -
  have "fst (UNetTrainer_init example_torch counting_metrics train_py
          (example_config\<lparr>cfg_checkpoint_dir := ''weights.pt''\<rparr>))
     = Inl (AttributeError ''checkpoint_path'')"
    by (simp add: UNetTrainer_init_def example_torch_def example_config_def Let_def
        load_checkpoint_def)
  moreover have "fst (UNetTrainer_init example_torch counting_metrics train_py
          (example_config\<lparr>cfg_checkpoint_dir := ''unet.pth.tar''\<rparr>))
     = Inl (AttributeError ''checkpoint_path'')"
    by (simp add: UNetTrainer_init_def example_torch_def example_config_def Let_def
        load_checkpoint_def)
  moreover have "load_checkpoint T g (self\<lparr>checkpoint_path := None\<rparr>)
     = (Inl (AttributeError ''checkpoint_path''), self\<lparr>checkpoint_path := None\<rparr>)"
    by (simp add: load_checkpoint_def)
  ultimately show ?thesis
    using UNetTrainer_init_path [of T lib g cfg] by blast
qed

text \<open>
  In the namespace the module builds, \<^verbatim>\<open>load_checkpoint\<close> ends at line 290, 293 or 298.
\<close>

lemma load_checkpoint_train_py:
  "load_checkpoint T train_py self =
     (case checkpoint_path self of
        None \<Rightarrow> (Inl (AttributeError ''checkpoint_path''), self)
      | Some path \<Rightarrow>
          if \<not> endswith path ''.pth.tar'' then (Inl (ValueError path), self)
          else (Inl (NameError ''checkpoint_path''), self))"
  by (simp add: load_checkpoint_def train_py_def split: option.splits)

text \<open>
  Claim C3.  In the namespace the module builds, every call of \<^verbatim>\<open>load_checkpoint\<close>
  raises and leaves the instance, and with it every \<^verbatim>\<open>requires_grad\<close> flag, as it
  was: the freeze policy of lines 302-312 is never applied.  Constructing a trainer with a
  checkpoint and \<^verbatim>\<open>freeze=True\<close> raises \<^verbatim>\<open>AttributeError\<close>, and the parameters
  outside the final layer are still trainable.
\<close>

theorem load_checkpoint_never_reaches_freeze_policy:
  "isl (fst (load_checkpoint T train_py self))
   \<and> snd (load_checkpoint T train_py self) = self
   \<and> UNetTrainer_init example_torch counting_metrics train_py
        (example_config\<lparr>cfg_checkpoint_dir := ''unet.pth.tar'', cfg_freeze := True\<rparr>)
      = (Inl (AttributeError ''checkpoint_path''),
         \<lparr> image_size = 2, trainer_num_classes = 3, batch_size = 1, num_epochs = 4,
           learning_rate = 5 / 10000, checkpoint_dir = ''unet.pth.tar'', freeze = True,
           num_workers = 0, pin_memory = False, checkpoint_path = None,
           model = \<lparr> parameters = [(''downs.0.conv.0.weight'', True),
                                    (''final_conv.weight'', True),
                                    (''final_conv.bias'', True)],
                     state_dict = (), training = True \<rparr>,
           optimizer = Some \<lparr> param_names = [''downs.0.conv.0.weight'', ''final_conv.weight'',
                                               ''final_conv.bias''],
                               adam_state = () \<rparr>,
           trainer_metrics = None,
           effects = [OptimizerBound [''downs.0.conv.0.weight'', ''final_conv.weight'',
                                      ''final_conv.bias'']] \<rparr>)"
proof -
  have "isl (fst (load_checkpoint T train_py self))"
    "snd (load_checkpoint T train_py self) = self"
    by (simp_all add: load_checkpoint_train_py split: option.splits)
  moreover have "UNetTrainer_init example_torch counting_metrics train_py
        (example_config\<lparr>cfg_checkpoint_dir := ''unet.pth.tar'', cfg_freeze := True\<rparr>)
      = (Inl (AttributeError ''checkpoint_path''),
         \<lparr> image_size = 2, trainer_num_classes = 3, batch_size = 1, num_epochs = 4,
           learning_rate = 5 / 10000, checkpoint_dir = ''unet.pth.tar'', freeze = True,
           num_workers = 0, pin_memory = False, checkpoint_path = None,
           model = \<lparr> parameters = [(''downs.0.conv.0.weight'', True),
                                    (''final_conv.weight'', True),
                                    (''final_conv.bias'', True)],
                     state_dict = (), training = True \<rparr>,
           optimizer = Some \<lparr> param_names = [''downs.0.conv.0.weight'', ''final_conv.weight'',
                                               ''final_conv.bias''],
                               adam_state = () \<rparr>,
           trainer_metrics = None,
           effects = [OptimizerBound [''downs.0.conv.0.weight'', ''final_conv.weight'',
                                      ''final_conv.bias'']] \<rparr>)"
    by (simp add: UNetTrainer_init_def example_torch_def example_config_def Let_def
        load_checkpoint_def)
  ultimately show ?thesis by blast
qed

text \<open>
  The freeze policy itself, were it reached: the names are kept, and a parameter is
  trainable exactly when the flag is false or its name starts with \<^verbatim>\<open>final_conv\<close>.
\<close>

lemma freeze_policy_flags:
  "map fst (freeze_policy fr ps) = map fst ps
   \<and> (\<forall>(name, flag) \<in> set (freeze_policy fr ps).
         flag = (\<not> fr \<or> startswith name ''final_conv''))"
  by (auto simp: freeze_policy_def split: if_splits)

subsection \<open>Initialisation order\<close>













subsection \<open>Validation passes and the mode flag\<close>

lemma validate_one_batch_model:
  "model (snd (validate_one_batch T lib self ld)) =
     (model self)\<lparr>training := (case fst (validate_one_batch T lib self ld) of
                                  Inl _ \<Rightarrow> False | Inr _ \<Rightarrow> True)\<rparr>"
  unfolding validate_one_batch_def Let_def
  by (simp split: list.splits prod.splits sum.splits)

lemma validate_fn_model:
  "model (snd (validate_fn T lib g self ld)) =
     (model self)\<lparr>training := (case fst (validate_fn T lib g self ld) of
                                  Inl _ \<Rightarrow> False | Inr _ \<Rightarrow> True)\<rparr>"
  unfolding validate_fn_def Let_def
  by (simp split: prod.splits sum.splits)

text \<open>
  Claim C2, as the code has it.  A validation pass, single-batch or full-dataset, that
  raises an error to its caller leaves the mode flag of the model at evaluation: the flag is
  cleared by the first statement of the pass and set again only by the statement after the
  evaluation block, which a raised error skips.
\<close>

theorem validation_error_leaves_evaluation_mode:
  "(fst (validate_one_batch T lib self ld) = Inl e
      \<longrightarrow> \<not> training (model (snd (validate_one_batch T lib self ld))))
   \<and> (fst (validate_fn T lib g self ld') = Inl e'
      \<longrightarrow> \<not> training (model (snd (validate_fn T lib g self ld'))))"
  by (simp add: validate_one_batch_model validate_fn_model)

text \<open>
  At a batch whose scores have two class planes while the trainer has three classes: the
  loss raises on the shape mismatch, in both passes, and the model, in training mode before
  the pass, is in evaluation mode after it.
\<close>

lemmas validate_eval = validate_one_batch_def validate_fn_def Let_def one_hot_encoding_def
  functional_one_hot_def permute_0312_def one_hot_row_def example_torch_def
  UNetTrainer_init_def example_config_def UNetMetrics_init_def

theorem validation_error_counterexample:
  "fst (validate_one_batch example_torch counting_metrics
          (snd (UNetTrainer_init example_torch counting_metrics train_py example_config))
          [([[[[1]], [[0]]]], [[[2]]])])
     = Inl (RuntimeError ''shape mismatch'')
   \<and> training (model (snd (UNetTrainer_init example_torch counting_metrics train_py example_config)))
   \<and> \<not> training (model (snd (validate_one_batch example_torch counting_metrics
          (snd (UNetTrainer_init example_torch counting_metrics train_py example_config))
          [([[[[1]], [[0]]]], [[[2]]])])))"
  by (simp add: validate_eval upt_conv_Cons del: upt_Suc)

theorem validation_error_leaves_evaluation_mode_witness:
  "fst (validate_one_batch example_torch counting_metrics
          (snd (UNetTrainer_init example_torch counting_metrics train_py example_config))
          [([[[[1]], [[0]]]], [[[2]]])])
     = Inl (RuntimeError ''shape mismatch'')
   \<and> fst (validate_fn example_torch counting_metrics train_py
          (snd (UNetTrainer_init example_torch counting_metrics train_py example_config))
          [([[[[1]], [[0]]]], [[[2]]])])
     = Inl (RuntimeError ''shape mismatch'')
   \<and> \<not> training (model (snd (validate_one_batch example_torch counting_metrics
          (snd (UNetTrainer_init example_torch counting_metrics train_py example_config))
          [([[[[1]], [[0]]]], [[[2]]])])))
   \<and> \<not> training (model (snd (validate_fn example_torch counting_metrics train_py
          (snd (UNetTrainer_init example_torch counting_metrics train_py example_config))
          [([[[[1]], [[0]]]], [[[2]]])])))"
proof -
  let ?self = "snd (UNetTrainer_init example_torch counting_metrics train_py example_config)"
  let ?ld = "[([[[[1 :: real]], [[0]]]], [[[2 :: int]]])]"
  have one: "fst (validate_one_batch example_torch counting_metrics ?self ?ld)
               = Inl (RuntimeError ''shape mismatch'')"
    by (simp add: validate_eval upt_conv_Cons del: upt_Suc)
  have full: "fst (validate_fn example_torch counting_metrics train_py ?self ?ld)
               = Inl (RuntimeError ''shape mismatch'')"
    by (simp add: validate_eval upt_conv_Cons del: upt_Suc)
  show ?thesis
    using validation_error_leaves_evaluation_mode
      [where T = example_torch and lib = counting_metrics and g = train_py and self = ?self
         and ld = ?ld and ld' = ?ld and e = "RuntimeError ''shape mismatch''"
         and e' = "RuntimeError ''shape mismatch''"]
      one full
    by simp
qed

subsection \<open>The epoch loop\<close>

lemma validate_fn_loop_raises:
  "ld \<noteq> [] \<Longrightarrow> isl (validate_fn_loop T lib g self ld rl ra)"
  by (cases ld)
     (auto simp: trainer_metrics_getitem_def split: sum.splits option.splits)

lemma validate_fn_raises: "isl (fst (validate_fn T lib g self ld))"
proof (cases "ld = []")
  case True
  then show ?thesis by (simp add: validate_fn_def)
next
  case False
  then show ?thesis
    using validate_fn_loop_raises [OF False, of T lib g
        "self\<lparr>model := (model self)\<lparr>training := False\<rparr>\<rparr>" 0 0]
    by (auto simp: validate_fn_def Let_def split: sum.splits)
qed

text \<open>
  Claim C1.  \<^verbatim>\<open>run\<close> calls the validation pass once and is left: whatever the pass
  returns, the instance after \<^verbatim>\<open>run\<close> is the instance after that single call, with no
  checkpoint saved, and with four epochs and a first validation loss of \<open>5\<close> the call
  returns after the first epoch.  With the module's own validation pass, \<^verbatim>\<open>run\<close>
  raises and its effects are those it started with.
\<close>

theorem run_stops_after_first_validation:
  "snd (run_with validate self train_loader val_loader) = snd (validate self val_loader)
   \<and> run_with (\<lambda>s ld. (Inr \<lparr> loss = 5, accuracy = 1 / 2 \<rparr>, s))
        (snd (UNetTrainer_init example_torch counting_metrics train_py example_config)) [] []
      = (Inr (), snd (UNetTrainer_init example_torch counting_metrics train_py example_config))
   \<and> effects (snd (UNetTrainer_init example_torch counting_metrics train_py example_config))
      = [OptimizerBound [''downs.0.conv.0.weight'', ''final_conv.weight'', ''final_conv.bias'']]
   \<and> isl (fst (run T lib g self train_loader val_loader))
   \<and> effects (snd (run T lib g self train_loader val_loader)) = effects self"
proof -
  have a: "snd (run_with validate self train_loader val_loader) = snd (validate self val_loader)"
    by (simp add: run_with_def split: prod.splits sum.splits)
  have b: "run_with (\<lambda>s ld. (Inr \<lparr> loss = 5, accuracy = 1 / 2 \<rparr>, s))
        (snd (UNetTrainer_init example_torch counting_metrics train_py example_config)) [] []
      = (Inr (), snd (UNetTrainer_init example_torch counting_metrics train_py example_config))"
    by (simp add: run_with_def UNetTrainer_init_def example_torch_def example_config_def Let_def)
  have c: "effects (snd (UNetTrainer_init example_torch counting_metrics train_py example_config))
      = [OptimizerBound [''downs.0.conv.0.weight'', ''final_conv.weight'', ''final_conv.bias'']]"
    by (simp add: UNetTrainer_init_def example_torch_def example_config_def Let_def)
  have d: "isl (fst (run T lib g self train_loader val_loader))"
    using validate_fn_raises [of T lib g self val_loader]
    by (auto simp: run_def run_with_def split: prod.splits sum.splits)
  have "snd (run T lib g self train_loader val_loader) = snd (validate_fn T lib g self val_loader)"
    by (simp add: run_def run_with_def split: prod.splits sum.splits)
  then have e: "effects (snd (run T lib g self train_loader val_loader)) = effects self"
    by (simp add: validate_fn_def Let_def split: prod.splits sum.splits)
  show ?thesis using a b c d e by blast
qed

end
